theory Spec2Isabelle
  imports Main "HOL-Library.Sublist"
begin

section \<open>The managed browser adapter of CefSharp.Core\<close>

text \<open>
  A shallow embedding of \<^verbatim>\<open>src/CefSharp.Core/ManagedCefBrowserAdapter.h\<close>: the fields of
  the class \<^verbatim>\<open>ManagedCefBrowserAdapter\<close>, its constructor, its finalizer
  (\<^verbatim>\<open>!ManagedCefBrowserAdapter\<close>) and its destructor (\<^verbatim>\<open>~ManagedCefBrowserAdapter\<close>).
  A handle (\<^verbatim>\<open>T^\<close>) or a native reference (\<^verbatim>\<open>MCefRefPtr<T>\<close>) is an option:
  \<open>None\<close> is \<^verbatim>\<open>nullptr\<close>. A call the adapter makes on one of its collaborators is
  recorded, in program order, together with the adapter's fields at the moment of the call.
\<close>

subsection \<open>Objects\<close>

text \<open>
  An object handed to the adapter from outside (\<^verbatim>\<open>IWebBrowserInternal^\<close>,
  \<^verbatim>\<open>TaskScheduler^\<close>, \<^verbatim>\<open>IBrowser^\<close>, \<^verbatim>\<open>BrowserProcessServiceHost^\<close>) is known by its
  identity only.
\<close>

type_synonym handle = nat

text \<open>
  The objects the constructor creates, each named after its class and carrying the
  arguments of its constructor call (the \<^verbatim>\<open>this\<close> argument of the two client adapters
  is left out).
\<close>

datatype client_adapter =
    ClientAdapter "handle option"
  | RenderClientAdapter "handle option"

datatype pending_task_repository = PendingTaskRepository client_adapter

definition GetPendingTaskRepository :: "client_adapter \<Rightarrow> pending_task_repository" where
  "GetPendingTaskRepository c = PendingTaskRepository c"

datatype object_repository = JavascriptObjectRepository

datatype callback_factory = JavascriptCallbackFactory pending_task_repository

datatype method_runner_queue = MethodRunnerQueue object_repository "handle option"

subsection \<open>The adapter's fields (lines 31-38)\<close>

record adapter =
  clientAdapter :: "client_adapter option"
  browserProcessServiceHost :: "handle option"
  webBrowserInternal :: "handle option"
  javaScriptObjectRepository :: "object_repository option"
  javascriptCallbackFactory :: "callback_factory option"
  methodRunnerQueue :: "method_runner_queue option"
  browserWrapper :: "handle option"
  isDisposed :: bool

subsection \<open>Calls on collaborators\<close>

text \<open>
  \<open>Subscribe\<close> and \<open>Unsubscribe\<close> are \<^verbatim>\<open>MethodInvocationComplete += / -=\<close> with the
  adapter's handler. \<open>Release\<close> is the release of the adapter's reference to the native
  client adapter, which happens when a non-null \<^verbatim>\<open>MCefRefPtr\<close> is overwritten.
  \<open>DeleteBrowser\<close> and \<open>DeleteRepository\<close> are \<^verbatim>\<open>delete\<close> on a non-null handle
  (\<^verbatim>\<open>delete\<close> on \<^verbatim>\<open>nullptr\<close> does nothing). \<open>HostClose\<close> carries the timeout in ticks.
\<close>

datatype call =
    Subscribe method_runner_queue
  | Start method_runner_queue
  | Unsubscribe method_runner_queue
  | Stop method_runner_queue
  | Release client_adapter
  | CloseBrowser handle bool
  | DeleteBrowser handle
  | HostClose handle int
  | HostAbort handle
  | DeleteRepository object_repository
  | EngineCreateBrowser handle handle handle string
  | EngineResize handle int int

type_synonym trace = "(call \<times> adapter) list"

fun is_host_call :: "call \<Rightarrow> bool" where
  "is_host_call (HostClose h t) = True"
| "is_host_call (HostAbort h) = True"
| "is_host_call c = False"

text \<open>The resource a call gives up, if any.\<close>

datatype resource = Queue | Client | Browser | ServiceHost | Repository

fun released :: "call \<Rightarrow> resource option" where
  "released (Stop q) = Some Queue"
| "released (Release c) = Some Client"
| "released (DeleteBrowser b) = Some Browser"
| "released (HostClose h t) = Some ServiceHost"
| "released (HostAbort h) = Some ServiceHost"
| "released (DeleteRepository r) = Some Repository"
| "released c = None"

definition calls :: "trace \<Rightarrow> call list" where
  "calls tr = map fst tr"

subsection \<open>Settings and outcomes\<close>

text \<open>
  \<^verbatim>\<open>CefSharpSettings::WcfEnabled\<close> and \<^verbatim>\<open>CefSharpSettings::WcfTimeout\<close> are static
  properties declared outside this file; the destructor reads them, so they are a
  parameter. A \<^verbatim>\<open>TimeSpan\<close> is a signed tick count and is only compared with
  \<^verbatim>\<open>TimeSpan::Zero\<close>.
\<close>

record settings =
  WcfEnabled :: bool
  WcfTimeout :: int

text \<open>
  \<^verbatim>\<open>Close(TimeSpan)\<close> of the service host is the one call of the destructor whose failure
  the specification speaks of. What it does is the host's business, so it is a parameter
  \<open>hostClose\<close>: for a host and a timeout, \<open>None\<close> when the call returns and
  \<open>Some e\<close> when it throws \<open>e\<close>. The destructor has no \<^verbatim>\<open>try\<close> block, so a thrown
  exception leaves it at once. Every other collaborator call is taken to return.
\<close>

datatype exn = TimeoutException | CommunicationObjectFaultedException

datatype outcome = Returned | Raised exn

subsection \<open>Constructor (lines 47-65)\<close>

definition ManagedCefBrowserAdapter_ctor ::
    "handle option \<Rightarrow> bool \<Rightarrow> handle option \<Rightarrow> adapter \<times> trace" where
  "ManagedCefBrowserAdapter_ctor webBrowser offScreenRendering taskScheduler =
     (let c = (if offScreenRendering then RenderClientAdapter webBrowser
               else ClientAdapter webBrowser);
          r = JavascriptObjectRepository;
          f = JavascriptCallbackFactory (GetPendingTaskRepository c);
          q = MethodRunnerQueue r taskScheduler;
          this = \<lparr> clientAdapter = Some c,
                   browserProcessServiceHost = None,
                   webBrowserInternal = webBrowser,
                   javaScriptObjectRepository = Some r,
                   javascriptCallbackFactory = Some f,
                   methodRunnerQueue = Some q,
                   browserWrapper = None,
                   isDisposed = False \<rparr>
      in (this, [(Subscribe q, this), (Start q, this)]))"

subsection \<open>Finalizer (lines 67-70)\<close>

fun ManagedCefBrowserAdapter_finalizer :: "adapter \<times> trace \<Rightarrow> adapter \<times> trace" where
  "ManagedCefBrowserAdapter_finalizer (this, tr) =
     (this\<lparr>clientAdapter := None\<rparr>,
      tr @ (case clientAdapter this of None \<Rightarrow> [] | Some c \<Rightarrow> [(Release c, this)]))"

subsection \<open>Destructor (lines 72-112)\<close>

text \<open>Lines 77-82.\<close>

fun stop_method_runner :: "adapter \<times> trace \<Rightarrow> adapter \<times> trace" where
  "stop_method_runner (this, tr) =
     (case methodRunnerQueue this of
        None \<Rightarrow> (this, tr)
      | Some q \<Rightarrow> (this\<lparr>methodRunnerQueue := None\<rparr>,
                   tr @ [(Unsubscribe q, this), (Stop q, this)]))"

text \<open>Lines 88-94.\<close>

fun close_browser :: "adapter \<times> trace \<Rightarrow> adapter \<times> trace" where
  "close_browser (this, tr) =
     (case browserWrapper this of
        None \<Rightarrow> (this, tr)
      | Some b \<Rightarrow> (this\<lparr>browserWrapper := None\<rparr>,
                   tr @ [(CloseBrowser b True, this), (DeleteBrowser b, this)]))"

text \<open>Lines 96-107.\<close>

fun close_service_host ::
    "settings \<Rightarrow> (handle \<Rightarrow> int \<Rightarrow> exn option) \<Rightarrow> adapter \<times> trace \<Rightarrow> outcome \<times> adapter \<times> trace" where
  "close_service_host cfg hostClose (this, tr) =
     (if WcfEnabled cfg then
        (case browserProcessServiceHost this of
           None \<Rightarrow> (Returned, this, tr)
         | Some h \<Rightarrow>
             if WcfTimeout cfg > 0 then
               (case hostClose h (WcfTimeout cfg) of
                  Some e \<Rightarrow> (Raised e, this, tr @ [(HostClose h (WcfTimeout cfg), this)])
                | None \<Rightarrow> (Returned, this\<lparr>browserProcessServiceHost := None\<rparr>,
                            tr @ [(HostClose h (WcfTimeout cfg), this)]))
             else (Returned, this\<lparr>browserProcessServiceHost := None\<rparr>,
                   tr @ [(HostAbort h, this)]))
      else (Returned, this, tr))"

text \<open>Lines 109-111.\<close>

fun release_references :: "adapter \<times> trace \<Rightarrow> adapter \<times> trace" where
  "release_references (this, tr) =
     (this\<lparr>webBrowserInternal := None, javaScriptObjectRepository := None\<rparr>,
      tr @ (case javaScriptObjectRepository this of
              None \<Rightarrow> []
            | Some r \<Rightarrow> [(DeleteRepository r, this\<lparr>webBrowserInternal := None\<rparr>)]))"

definition ManagedCefBrowserAdapter_dtor ::
    "settings \<Rightarrow> (handle \<Rightarrow> int \<Rightarrow> exn option) \<Rightarrow> adapter \<Rightarrow> outcome \<times> adapter \<times> trace" where
  "ManagedCefBrowserAdapter_dtor cfg hostClose this =
     (case close_service_host cfg hostClose
             (close_browser
               (ManagedCefBrowserAdapter_finalizer
                 (stop_method_runner (this\<lparr>isDisposed := True\<rparr>, [])))) of
        (Raised e, run) \<Rightarrow> (Raised e, run)
      | (Returned, run) \<Rightarrow> (Returned, release_references run))"

subsection \<open>The teardown protocol, in the specification's words\<close>

text \<open>
  The six steps of the specification's teardown protocol, written over the fields the
  adapter has when disposal starts: (1) mark disposed; (2) unsubscribe from the queue and
  stop it; (3) release the client adapter's native handle; (4) if there is a live browser,
  close it with the force flag and release the handle; (5) if out-of-process messaging is
  enabled and a service host exists, close it with the timeout, or abort it when the
  timeout is not positive; (6) release the back-reference and the object repository.
  \<open>step_state cfg this k\<close> is the adapter after step \<open>k\<close>.
\<close>

fun step_state :: "settings \<Rightarrow> adapter \<Rightarrow> nat \<Rightarrow> adapter" where
  "step_state cfg this 0 = this"
| "step_state cfg this (Suc 0) = this\<lparr>isDisposed := True\<rparr>"
| "step_state cfg this (Suc (Suc 0)) =
     (step_state cfg this (Suc 0))\<lparr>methodRunnerQueue := None\<rparr>"
| "step_state cfg this (Suc (Suc (Suc 0))) =
     (step_state cfg this (Suc (Suc 0)))\<lparr>clientAdapter := None\<rparr>"
| "step_state cfg this (Suc (Suc (Suc (Suc 0)))) =
     (step_state cfg this (Suc (Suc (Suc 0))))\<lparr>browserWrapper := None\<rparr>"
| "step_state cfg this (Suc (Suc (Suc (Suc (Suc 0))))) =
     (step_state cfg this (Suc (Suc (Suc (Suc 0)))))
       \<lparr>browserProcessServiceHost :=
          (if WcfEnabled cfg then None else browserProcessServiceHost this)\<rparr>"
| "step_state cfg this (Suc (Suc (Suc (Suc (Suc (Suc n)))))) =
     (step_state cfg this (Suc (Suc (Suc (Suc (Suc 0))))))
       \<lparr>webBrowserInternal := None, javaScriptObjectRepository := None\<rparr>"

definition queue_step :: "settings \<Rightarrow> adapter \<Rightarrow> trace" where
  "queue_step cfg this =
     (case methodRunnerQueue this of
        None \<Rightarrow> []
      | Some q \<Rightarrow> [(Unsubscribe q, step_state cfg this 1), (Stop q, step_state cfg this 1)])"

definition client_step :: "settings \<Rightarrow> adapter \<Rightarrow> trace" where
  "client_step cfg this =
     (case clientAdapter this of
        None \<Rightarrow> []
      | Some c \<Rightarrow> [(Release c, step_state cfg this 2)])"

definition browser_step :: "settings \<Rightarrow> adapter \<Rightarrow> trace" where
  "browser_step cfg this =
     (case browserWrapper this of
        None \<Rightarrow> []
      | Some b \<Rightarrow> [(CloseBrowser b True, step_state cfg this 3),
                   (DeleteBrowser b, step_state cfg this 3)])"

definition host_step :: "settings \<Rightarrow> adapter \<Rightarrow> trace" where
  "host_step cfg this =
     (case browserProcessServiceHost this of
        None \<Rightarrow> []
      | Some h \<Rightarrow>
          if WcfEnabled cfg then
            [(if WcfTimeout cfg > 0 then HostClose h (WcfTimeout cfg) else HostAbort h,
              step_state cfg this 4)]
          else [])"

definition repository_step :: "settings \<Rightarrow> adapter \<Rightarrow> trace" where
  "repository_step cfg this =
     (case javaScriptObjectRepository this of
        None \<Rightarrow> []
      | Some r \<Rightarrow> [(DeleteRepository r, (step_state cfg this 5)\<lparr>webBrowserInternal := None\<rparr>)])"

definition teardown_protocol :: "settings \<Rightarrow> adapter \<Rightarrow> adapter \<times> trace" where
  "teardown_protocol cfg this =
     (step_state cfg this 6,
      queue_step cfg this @ client_step cfg this @ browser_step cfg this @
      host_step cfg this @ repository_step cfg this)"

text \<open>
  Whether the service host's \<^verbatim>\<open>Close\<close> is reached by a disposal that starts from
  \<open>this\<close>, and throws.
\<close>

definition close_raises ::
    "settings \<Rightarrow> (handle \<Rightarrow> int \<Rightarrow> exn option) \<Rightarrow> adapter \<Rightarrow> exn option" where
  "close_raises cfg hostClose this =
     (case browserProcessServiceHost this of
        None \<Rightarrow> None
      | Some h \<Rightarrow>
          if WcfEnabled cfg \<and> WcfTimeout cfg > 0 then hostClose h (WcfTimeout cfg) else None)"

subsection \<open>Entry points declared in the header and defined elsewhere\<close>

text \<open>
  Modelled from the spec: the getter of the \<^verbatim>\<open>IsDisposed\<close> property is only declared
  in the header (line 116); the specification's \<open>IsDisposed\<close> is the disposed flag.
\<close>

definition IsDisposed :: "adapter \<Rightarrow> bool" where
  "IsDisposed this = isDisposed this"

text \<open>
  Modelled from the spec: the body of \<^verbatim>\<open>OnAfterBrowserCreated\<close> is not in the header
  (line 119 declares it). The specification: it records the live browser handle; if
  disposal is in progress or complete, the handle must not be retained and must be
  released immediately.
\<close>

definition OnAfterBrowserCreated :: "handle \<Rightarrow> adapter \<Rightarrow> adapter \<times> trace" where
  "OnAfterBrowserCreated browser this =
     (if isDisposed this then (this, [(DeleteBrowser browser, this)])
      else (this\<lparr>browserWrapper := Some browser\<rparr>, []))"

text \<open>
  Modelled from the spec: the body of \<^verbatim>\<open>CreateBrowser\<close> is not in the header
  (line 120 declares it). The specification: it requests engine-level browser creation
  and returns nothing; an entry point invoked after disposal begins short-circuits.
\<close>

definition CreateBrowser ::
    "handle \<Rightarrow> handle \<Rightarrow> handle \<Rightarrow> string \<Rightarrow> adapter \<Rightarrow> adapter \<times> trace" where
  "CreateBrowser windowInfo browserSettings requestContext address this =
     (if isDisposed this then (this, [])
      else (this, [(EngineCreateBrowser windowInfo browserSettings requestContext address, this)]))"

text \<open>
  Modelled from the spec: the body of \<^verbatim>\<open>Resize\<close> is not in the header (line 121
  declares it). The specification: it forwards a geometry change to the native browser
  handle and is a no-op if there is no live handle; an entry point invoked after disposal
  begins short-circuits.
\<close>

definition Resize :: "int \<Rightarrow> int \<Rightarrow> adapter \<Rightarrow> adapter \<times> trace" where
  "Resize width height this =
     (if isDisposed this then (this, [])
      else (case browserWrapper this of
              None \<Rightarrow> (this, [])
            | Some b \<Rightarrow> (this, [(EngineResize b width height, this)])))"

text \<open>
  Modelled from the spec: the body of \<^verbatim>\<open>GetBrowser\<close> is not in the header (line 123
  declares it). The specification: it returns the handle for an identifier, or an empty
  result if the identifier is unknown or the browser is not yet created, and an empty
  result after disposal. A browser's identifier is the number of its handle.
\<close>

definition GetBrowser :: "int \<Rightarrow> adapter \<Rightarrow> handle option" where
  "GetBrowser browserId this =
     (if isDisposed this then None
      else (case browserWrapper this of
              None \<Rightarrow> None
            | Some b \<Rightarrow> if int b = browserId then Some b else None))"

subsection \<open>Sequences of operations on one adapter\<close>

datatype operation =
    Finalize
  | Dispose settings "handle \<Rightarrow> int \<Rightarrow> exn option"
  | AfterBrowserCreated handle
  | Create handle handle handle string
  | ResizeTo int int

fun is_dispose :: "operation \<Rightarrow> bool" where
  "is_dispose (Dispose cfg hostClose) = True"
| "is_dispose x = False"

fun exec :: "operation \<Rightarrow> adapter \<Rightarrow> adapter \<times> trace" where
  "exec Finalize this = ManagedCefBrowserAdapter_finalizer (this, [])"
| "exec (Dispose cfg hostClose) this = snd (ManagedCefBrowserAdapter_dtor cfg hostClose this)"
| "exec (AfterBrowserCreated b) this = OnAfterBrowserCreated b this"
| "exec (Create w s c a) this = CreateBrowser w s c a this"
| "exec (ResizeTo w h) this = Resize w h this"

fun exec_all :: "operation list \<Rightarrow> adapter \<Rightarrow> adapter" where
  "exec_all [] this = this"
| "exec_all (x # xs) this = exec_all xs (fst (exec x this))"

text \<open>The references the destructor clears before its first call that can fail.\<close>

definition torn_down :: "adapter \<Rightarrow> bool" where
  "torn_down this \<longleftrightarrow>
     clientAdapter this = None \<and> methodRunnerQueue this = None \<and> browserWrapper this = None"

subsection \<open>A running example\<close>

text \<open>
  An adapter constructed for windowed rendering, whose browser has been created and whose
  service host is open, and settings with out-of-process messaging enabled.
\<close>

definition live_adapter :: adapter where
  "live_adapter =
     (fst (ManagedCefBrowserAdapter_ctor (Some 1) False (Some 2)))
       \<lparr>browserProcessServiceHost := Some 4, browserWrapper := Some 3\<rparr>"

definition wcf_on :: settings where
  "wcf_on = \<lparr> WcfEnabled = True, WcfTimeout = 5 \<rparr>"

text \<open>
  What holds of a browser-close call made while disposing \<open>this\<close>: it carries the
  force flag, it is on the live browser, and at the moment of the call the adapter is
  marked disposed, has dropped its queue and has released the client adapter.
\<close>

fun browser_closed_safely :: "adapter \<Rightarrow> call \<times> adapter \<Rightarrow> bool" where
  "browser_closed_safely this (CloseBrowser b force, s) =
     (force \<and> browserWrapper this = Some b \<and> isDisposed s \<and>
      methodRunnerQueue s = None \<and> clientAdapter s = None)"
| "browser_closed_safely this (c, s) = True"

section \<open>The method invocation queue\<close>

text \<open>
  Modelled from the spec: the class \<^verbatim>\<open>MethodRunnerQueue\<close> is not among the sources (the
  header only constructs, starts and stops one). The specification: requests are
  enqueued; a consumer, started explicitly and stopped explicitly, drains the queue and
  executes each request, and each executed request raises a completion notification
  carrying the result; \<open>start\<close> is idempotent while running; \<open>stop\<close> drains no further
  items; enqueue after \<open>stop\<close> is a no-op. The consumer is run to its end at once, and
  \<open>run\<close> is the execution of one request against the object repository. What
  \<open>start\<close> does on a stopped queue is not said; it is left a no-op.
\<close>

datatype phase = Created | Running | Stopped

record ('r, 'v) invocation_queue =
  phase :: phase
  queued :: "'r list"
  completions :: "('r \<times> 'v) list"

definition mrq_new :: "('r, 'v) invocation_queue" where
  "mrq_new = \<lparr> phase = Created, queued = [], completions = [] \<rparr>"

fun drain :: "('r \<Rightarrow> 'v) \<Rightarrow> 'r list \<Rightarrow> ('r \<times> 'v) list \<Rightarrow> ('r \<times> 'v) list" where
  "drain run [] notified = notified"
| "drain run (r # rs) notified = drain run rs (notified @ [(r, run r)])"

definition consume :: "('r \<Rightarrow> 'v) \<Rightarrow> ('r, 'v) invocation_queue \<Rightarrow> ('r, 'v) invocation_queue" where
  "consume run q = q\<lparr>queued := [], completions := drain run (queued q) (completions q)\<rparr>"

definition mrq_enqueue ::
    "('r \<Rightarrow> 'v) \<Rightarrow> 'r \<Rightarrow> ('r, 'v) invocation_queue \<Rightarrow> ('r, 'v) invocation_queue" where
  "mrq_enqueue run r q =
     (case phase q of
        Stopped \<Rightarrow> q
      | Created \<Rightarrow> q\<lparr>queued := queued q @ [r]\<rparr>
      | Running \<Rightarrow> consume run (q\<lparr>queued := queued q @ [r]\<rparr>))"

definition mrq_start :: "('r \<Rightarrow> 'v) \<Rightarrow> ('r, 'v) invocation_queue \<Rightarrow> ('r, 'v) invocation_queue" where
  "mrq_start run q =
     (case phase q of
        Created \<Rightarrow> consume run (q\<lparr>phase := Running\<rparr>)
      | Running \<Rightarrow> q
      | Stopped \<Rightarrow> q)"

definition mrq_stop :: "('r, 'v) invocation_queue \<Rightarrow> ('r, 'v) invocation_queue" where
  "mrq_stop q = q\<lparr>phase := Stopped\<rparr>"

datatype 'r queue_op = Enqueue 'r | StartQueue | StopQueue

fun mrq_apply ::
    "('r \<Rightarrow> 'v) \<Rightarrow> 'r queue_op \<Rightarrow> ('r, 'v) invocation_queue \<Rightarrow> ('r, 'v) invocation_queue" where
  "mrq_apply run (Enqueue r) q = mrq_enqueue run r q"
| "mrq_apply run StartQueue q = mrq_start run q"
| "mrq_apply run StopQueue q = mrq_stop q"

fun mrq_run ::
    "('r \<Rightarrow> 'v) \<Rightarrow> 'r queue_op list \<Rightarrow> ('r, 'v) invocation_queue \<Rightarrow> ('r, 'v) invocation_queue" where
  "mrq_run run [] q = q"
| "mrq_run run (x # xs) q = mrq_run run xs (mrq_apply run x q)"

fun enqueued :: "'r queue_op list \<Rightarrow> 'r list" where
  "enqueued [] = []"
| "enqueued (Enqueue r # xs) = r # enqueued xs"
| "enqueued (x # xs) = enqueued xs"

section \<open>Properties\<close>

lemma step_state_numeral:
  "step_state cfg this 1 = this\<lparr>isDisposed := True\<rparr>"
  "step_state cfg this 2 = this\<lparr>isDisposed := True, methodRunnerQueue := None\<rparr>"
  "step_state cfg this 3 =
     this\<lparr>isDisposed := True, methodRunnerQueue := None, clientAdapter := None\<rparr>"
  "step_state cfg this 4 =
     this\<lparr>isDisposed := True, methodRunnerQueue := None, clientAdapter := None,
          browserWrapper := None\<rparr>"
  "step_state cfg this 5 =
     this\<lparr>isDisposed := True, methodRunnerQueue := None, clientAdapter := None,
          browserWrapper := None,
          browserProcessServiceHost :=
            (if WcfEnabled cfg then None else browserProcessServiceHost this)\<rparr>"
  "step_state cfg this 6 =
     this\<lparr>isDisposed := True, methodRunnerQueue := None, clientAdapter := None,
          browserWrapper := None,
          browserProcessServiceHost :=
            (if WcfEnabled cfg then None else browserProcessServiceHost this),
          webBrowserInternal := None, javaScriptObjectRepository := None\<rparr>"
  by (simp_all add: numeral_eq_Suc)

lemmas protocol_defs =
  teardown_protocol_def queue_step_def client_step_def browser_step_def host_step_def
  repository_step_def close_raises_def step_state_numeral

lemma live_adapter_eq:
  "live_adapter =
     \<lparr> clientAdapter = Some (ClientAdapter (Some 1)),
       browserProcessServiceHost = Some 4,
       webBrowserInternal = Some 1,
       javaScriptObjectRepository = Some JavascriptObjectRepository,
       javascriptCallbackFactory =
         Some (JavascriptCallbackFactory (PendingTaskRepository (ClientAdapter (Some 1)))),
       methodRunnerQueue = Some (MethodRunnerQueue JavascriptObjectRepository (Some 2)),
       browserWrapper = Some 3,
       isDisposed = False \<rparr>"
  by (simp add: live_adapter_def ManagedCefBrowserAdapter_ctor_def Let_def
      GetPendingTaskRepository_def)

lemma dtor_returned:
  "close_raises cfg hostClose this = None \<Longrightarrow>
   ManagedCefBrowserAdapter_dtor cfg hostClose this = (Returned, teardown_protocol cfg this)"
  by (auto simp: ManagedCefBrowserAdapter_dtor_def protocol_defs split: option.splits if_splits)

lemma dtor_raised:
  "close_raises cfg hostClose this = Some e \<Longrightarrow>
   ManagedCefBrowserAdapter_dtor cfg hostClose this =
     (Raised e, step_state cfg this 4,
      queue_step cfg this @ client_step cfg this @ browser_step cfg this @ host_step cfg this)"
  by (auto simp: ManagedCefBrowserAdapter_dtor_def protocol_defs split: option.splits if_splits)

lemma dtor_returns_iff:
  "fst (ManagedCefBrowserAdapter_dtor cfg hostClose this) = Returned \<longleftrightarrow>
   close_raises cfg hostClose this = None"
proof (cases "close_raises cfg hostClose this")
  case None
  then show ?thesis by (simp add: dtor_returned)
next
  case (Some e)
  then show ?thesis by (simp add: dtor_raised)
qed

lemma protocol_disposed:
  "list_all (\<lambda>(c, s). isDisposed s) (snd (teardown_protocol cfg this))"
  by (auto simp: protocol_defs split: option.splits)

lemma protocol_close_browser:
  "list_all (browser_closed_safely this) (snd (teardown_protocol cfg this))"
  by (simp add: protocol_defs split: option.splits)

lemma dtor_disposed:
  "isDisposed (fst (snd (ManagedCefBrowserAdapter_dtor cfg hostClose this)))"
  by (cases "close_raises cfg hostClose this")
     (simp_all add: dtor_returned dtor_raised teardown_protocol_def step_state_numeral)

lemma dtor_browser_cleared:
  "browserWrapper (fst (snd (ManagedCefBrowserAdapter_dtor cfg hostClose this))) = None"
  by (cases "close_raises cfg hostClose this")
     (simp_all add: dtor_returned dtor_raised teardown_protocol_def step_state_numeral)

lemma raised_steps_disposed:
  "list_all (\<lambda>(c, s). isDisposed s)
     (queue_step cfg this @ client_step cfg this @ browser_step cfg this @ host_step cfg this)"
  by (simp add: protocol_defs split: option.splits)

lemma dtor_calls_disposed:
  "list_all (\<lambda>(c, s). isDisposed s) (snd (snd (ManagedCefBrowserAdapter_dtor cfg hostClose this)))"
proof (cases "close_raises cfg hostClose this")
  case None
  then show ?thesis using protocol_disposed [of cfg this] by (simp add: dtor_returned)
next
  case (Some e)
  then show ?thesis using raised_steps_disposed [of cfg this] by (simp add: dtor_raised)
qed

lemma raised_steps_close_browser:
  "list_all (browser_closed_safely this)
     (queue_step cfg this @ client_step cfg this @ browser_step cfg this @ host_step cfg this)"
  by (simp add: protocol_defs split: option.splits)

lemma dtor_close_browser:
  "list_all (browser_closed_safely this)
     (snd (snd (ManagedCefBrowserAdapter_dtor cfg hostClose this)))"
proof (cases "close_raises cfg hostClose this")
  case None
  then show ?thesis using protocol_close_browser [of this cfg] by (simp add: dtor_returned)
next
  case (Some e)
  then show ?thesis using raised_steps_close_browser [of this cfg] by (simp add: dtor_raised)
qed

text \<open>
  Claim C1, as stated, fails: not every disposal reaches the sixth step. The running
  example is disposed with a service host whose close throws: the first five steps are
  made in order, the close is the last call, and neither the back-reference nor the
  object repository is released.
\<close>

theorem teardown_cut_short_counterexample:
  "fst (ManagedCefBrowserAdapter_dtor wcf_on (\<lambda>h t. Some CommunicationObjectFaultedException)
          live_adapter) = Raised CommunicationObjectFaultedException \<and>
   calls (snd (snd (ManagedCefBrowserAdapter_dtor wcf_on
          (\<lambda>h t. Some CommunicationObjectFaultedException) live_adapter))) =
     [Unsubscribe (MethodRunnerQueue JavascriptObjectRepository (Some 2)),
      Stop (MethodRunnerQueue JavascriptObjectRepository (Some 2)),
      Release (ClientAdapter (Some 1)),
      CloseBrowser 3 True, DeleteBrowser 3, HostClose 4 5] \<and>
   DeleteRepository JavascriptObjectRepository \<notin>
     set (calls (snd (snd (ManagedCefBrowserAdapter_dtor wcf_on
          (\<lambda>h t. Some CommunicationObjectFaultedException) live_adapter)))) \<and>
   webBrowserInternal (fst (snd (ManagedCefBrowserAdapter_dtor wcf_on
          (\<lambda>h t. Some CommunicationObjectFaultedException) live_adapter))) = Some 1 \<and>
   javaScriptObjectRepository (fst (snd (ManagedCefBrowserAdapter_dtor wcf_on
          (\<lambda>h t. Some CommunicationObjectFaultedException) live_adapter))) =
     Some JavascriptObjectRepository"
proof -
  have "close_raises wcf_on (\<lambda>h t. Some CommunicationObjectFaultedException) live_adapter =
      Some CommunicationObjectFaultedException"
    by (simp add: close_raises_def live_adapter_eq wcf_on_def)
  then show ?thesis
    by (simp add: dtor_raised calls_def protocol_defs live_adapter_eq wcf_on_def)
qed

text \<open>
  Claim C1, amended. Every disposal is determined by whether the service host's
  \<open>Close\<close> is reached and throws. If it is not, the destructor is the whole teardown
  protocol: the six steps in the protocol's order, each guarded by the presence of its
  own resource only, with the protocol's final state. If it is, the destructor is the
  first five steps in the same order, ends with the throwing \<open>Close\<close>, leaves the host
  reference set and does not reach the sixth step. In both cases the disposed flag is set
  in the final state and before every call, and a browser-close call carries the force
  flag and is made after the queue has been stopped and the client adapter's native
  handle released.
\<close>

theorem teardown_order:
  "ManagedCefBrowserAdapter_dtor cfg hostClose this =
     (case close_raises cfg hostClose this of
        None \<Rightarrow> (Returned, teardown_protocol cfg this)
      | Some e \<Rightarrow>
          (Raised e, step_state cfg this 4,
           queue_step cfg this @ client_step cfg this @ browser_step cfg this @
           host_step cfg this)) \<and>
   isDisposed (fst (snd (ManagedCefBrowserAdapter_dtor cfg hostClose this))) \<and>
   list_all (\<lambda>(c, s). isDisposed s)
     (snd (snd (ManagedCefBrowserAdapter_dtor cfg hostClose this))) \<and>
   list_all (browser_closed_safely this)
     (snd (snd (ManagedCefBrowserAdapter_dtor cfg hostClose this)))"
proof -
  have "ManagedCefBrowserAdapter_dtor cfg hostClose this =
     (case close_raises cfg hostClose this of
        None \<Rightarrow> (Returned, teardown_protocol cfg this)
      | Some e \<Rightarrow>
          (Raised e, step_state cfg this 4,
           queue_step cfg this @ client_step cfg this @ browser_step cfg this @
           host_step cfg this))"
    by (cases "close_raises cfg hostClose this") (simp_all add: dtor_returned dtor_raised)
  then show ?thesis
    using dtor_disposed [of cfg hostClose this] dtor_calls_disposed [of cfg hostClose this]
      dtor_close_browser [of this cfg hostClose]
    by blast
qed

text \<open>
  The running example disposed with a close that returns, and, without a live browser,
  with a close that times out.
\<close>

theorem teardown_order_witness:
  "calls (snd (snd (ManagedCefBrowserAdapter_dtor wcf_on (\<lambda>h t. None) live_adapter))) =
     [Unsubscribe (MethodRunnerQueue JavascriptObjectRepository (Some 2)),
      Stop (MethodRunnerQueue JavascriptObjectRepository (Some 2)),
      Release (ClientAdapter (Some 1)),
      CloseBrowser 3 True, DeleteBrowser 3, HostClose 4 5,
      DeleteRepository JavascriptObjectRepository] \<and>
   fst (ManagedCefBrowserAdapter_dtor wcf_on (\<lambda>h t. None) live_adapter) = Returned \<and>
   calls (snd (snd (ManagedCefBrowserAdapter_dtor wcf_on (\<lambda>h t. Some TimeoutException)
       (live_adapter\<lparr>browserWrapper := None\<rparr>)))) =
     [Unsubscribe (MethodRunnerQueue JavascriptObjectRepository (Some 2)),
      Stop (MethodRunnerQueue JavascriptObjectRepository (Some 2)),
      Release (ClientAdapter (Some 1)), HostClose 4 5] \<and>
   fst (ManagedCefBrowserAdapter_dtor wcf_on (\<lambda>h t. Some TimeoutException)
       (live_adapter\<lparr>browserWrapper := None\<rparr>)) = Raised TimeoutException"
proof -
  have n: "close_raises wcf_on (\<lambda>h t. None) live_adapter = None"
    by (simp add: close_raises_def live_adapter_eq wcf_on_def)
  have s: "close_raises wcf_on (\<lambda>h t. Some TimeoutException)
       (live_adapter\<lparr>browserWrapper := None\<rparr>) = Some TimeoutException"
    by (simp add: close_raises_def live_adapter_eq wcf_on_def)
  from teardown_order [of wcf_on "\<lambda>h t. None" live_adapter]
  have a: "ManagedCefBrowserAdapter_dtor wcf_on (\<lambda>h t. None) live_adapter =
      (Returned, teardown_protocol wcf_on live_adapter)"
    by (simp add: n)
  from teardown_order [of wcf_on "\<lambda>h t. Some TimeoutException"
      "live_adapter\<lparr>browserWrapper := None\<rparr>"]
  have b: "ManagedCefBrowserAdapter_dtor wcf_on (\<lambda>h t. Some TimeoutException)
       (live_adapter\<lparr>browserWrapper := None\<rparr>) =
      (Raised TimeoutException, step_state wcf_on (live_adapter\<lparr>browserWrapper := None\<rparr>) 4,
       queue_step wcf_on (live_adapter\<lparr>browserWrapper := None\<rparr>) @
       client_step wcf_on (live_adapter\<lparr>browserWrapper := None\<rparr>) @
       browser_step wcf_on (live_adapter\<lparr>browserWrapper := None\<rparr>) @
       host_step wcf_on (live_adapter\<lparr>browserWrapper := None\<rparr>))"
    by (simp add: s)
  show ?thesis
    unfolding a b by (simp add: calls_def protocol_defs live_adapter_eq wcf_on_def)
qed

lemma host_calls_protocol:
  "filter is_host_call (map fst (queue_step cfg this @ client_step cfg this @ browser_step cfg this)) = []"
  "filter is_host_call (map fst (repository_step cfg this)) = []"
  by (auto simp: protocol_defs split: option.splits)

lemma dtor_host_calls:
  "filter is_host_call (calls (snd (snd (ManagedCefBrowserAdapter_dtor cfg hostClose this)))) =
   map fst (host_step cfg this)"
proof (cases "close_raises cfg hostClose this")
  case None
  then show ?thesis
    using host_calls_protocol [of cfg this]
    by (auto simp: dtor_returned calls_def teardown_protocol_def host_step_def split: option.splits)
next
  case (Some e)
  then show ?thesis
    using host_calls_protocol [of cfg this]
    by (auto simp: dtor_raised calls_def teardown_protocol_def host_step_def split: option.splits)
qed

text \<open>
  Claim C6. When out-of-process messaging is enabled and a service host exists, disposal
  makes exactly one call on the host: \<open>Close\<close> with the configured timeout when the
  timeout is positive, \<open>Abort\<close> otherwise. On the abort path \<open>Close\<close> is never
  consulted: the disposal returns, and is the same whatever \<open>Close\<close> would do.
\<close>

theorem service_host_close_or_abort:
  assumes "WcfEnabled cfg" and "browserProcessServiceHost this = Some h"
  shows "filter is_host_call (calls (snd (snd (ManagedCefBrowserAdapter_dtor cfg hostClose this)))) =
           [if 0 < WcfTimeout cfg then HostClose h (WcfTimeout cfg) else HostAbort h] \<and>
         (\<not> 0 < WcfTimeout cfg \<longrightarrow>
            fst (ManagedCefBrowserAdapter_dtor cfg hostClose this) = Returned \<and>
            ManagedCefBrowserAdapter_dtor cfg hostClose this =
              ManagedCefBrowserAdapter_dtor cfg hostClose' this)"
proof -
  have "map fst (host_step cfg this) =
          [if 0 < WcfTimeout cfg then HostClose h (WcfTimeout cfg) else HostAbort h]"
    using assms by (simp add: host_step_def)
  moreover have "close_raises cfg hostClose this = None \<and> close_raises cfg hostClose' this = None"
    if "\<not> 0 < WcfTimeout cfg"
    using that by (simp add: close_raises_def split: option.splits)
  ultimately show ?thesis
    by (simp add: dtor_host_calls dtor_returned)
qed

text \<open>The running example with a timeout of five ticks, and with a timeout of zero.\<close>

theorem service_host_close_or_abort_witness:
  "filter is_host_call (calls (snd (snd (ManagedCefBrowserAdapter_dtor wcf_on (\<lambda>h t. None) live_adapter)))) =
     [HostClose 4 5] \<and>
   filter is_host_call (calls (snd (snd (ManagedCefBrowserAdapter_dtor
       \<lparr>WcfEnabled = True, WcfTimeout = 0\<rparr> (\<lambda>h t. Some TimeoutException) live_adapter)))) =
     [HostAbort 4] \<and>
   fst (ManagedCefBrowserAdapter_dtor
       \<lparr>WcfEnabled = True, WcfTimeout = 0\<rparr> (\<lambda>h t. Some TimeoutException) live_adapter) = Returned"
proof -
  have e: "WcfEnabled wcf_on" "WcfEnabled \<lparr>WcfEnabled = True, WcfTimeout = 0\<rparr>"
    by (simp_all add: wcf_on_def)
  have h: "browserProcessServiceHost live_adapter = Some 4"
    by (simp add: live_adapter_eq)
  show ?thesis
    using service_host_close_or_abort [OF e(1) h, of "\<lambda>h t. None"]
      service_host_close_or_abort [OF e(2) h, of "\<lambda>h t. Some TimeoutException"]
    by (simp add: wcf_on_def)
qed

lemma step_releases:
  "List.map_filter released (map fst (queue_step cfg this)) =
     (case methodRunnerQueue this of None \<Rightarrow> [] | Some q \<Rightarrow> [Queue])"
  "List.map_filter released (map fst (client_step cfg this)) =
     (case clientAdapter this of None \<Rightarrow> [] | Some c \<Rightarrow> [Client])"
  "List.map_filter released (map fst (browser_step cfg this)) =
     (case browserWrapper this of None \<Rightarrow> [] | Some b \<Rightarrow> [Browser])"
  "List.map_filter released (map fst (host_step cfg this)) =
     (case browserProcessServiceHost this of
        None \<Rightarrow> [] | Some h \<Rightarrow> if WcfEnabled cfg then [ServiceHost] else [])"
  "List.map_filter released (map fst (repository_step cfg this)) =
     (case javaScriptObjectRepository this of None \<Rightarrow> [] | Some r \<Rightarrow> [Repository])"
  by (simp_all add: queue_step_def client_step_def browser_step_def host_step_def
      repository_step_def List.map_filter_def split: option.splits)

lemma map_filter_app:
  "List.map_filter f (xs @ ys) = List.map_filter f xs @ List.map_filter f ys"
  by (simp add: List.map_filter_def)

lemma protocol_releases:
  "distinct (List.map_filter released (map fst (snd (teardown_protocol cfg this))))"
  by (simp add: teardown_protocol_def map_filter_app step_releases split: option.splits)

lemma protocol_no_close:
  "close_raises cfg hostClose' (fst (teardown_protocol cfg this)) = None"
  by (simp add: protocol_defs split: option.splits)

lemma protocol_twice:
  "teardown_protocol cfg (fst (teardown_protocol cfg this)) = (fst (teardown_protocol cfg this), [])"
  by (simp add: protocol_defs split: option.splits)

lemma raised_state_retry:
  assumes "close_raises cfg hostClose this = Some e"
    and "browserProcessServiceHost this = Some h"
  shows "close_raises cfg hostClose' (step_state cfg this 4) = hostClose' h (WcfTimeout cfg)"
    and "host_step cfg (step_state cfg this 4) =
           [(HostClose h (WcfTimeout cfg), step_state cfg this 4)]"
    and "queue_step cfg (step_state cfg this 4) = []"
    and "client_step cfg (step_state cfg this 4) = []"
    and "browser_step cfg (step_state cfg this 4) = []"
    and "map fst (repository_step cfg (step_state cfg this 4)) =
           (case javaScriptObjectRepository this of
              None \<Rightarrow> [] | Some r \<Rightarrow> [DeleteRepository r])"
  using assms
  by (simp_all add: protocol_defs split: option.splits if_splits)

text \<open>
  Claim C4, as stated, fails. The running example is disposed twice with a service host
  whose close times out both times: both runs throw, and \<open>Close\<close> is called on the same
  host in each, so the host is given up twice. If instead the second close returns, the
  second run changes the adapter.
\<close>

theorem disposal_twice_counterexample:
  "fst (ManagedCefBrowserAdapter_dtor wcf_on (\<lambda>h t. Some TimeoutException) live_adapter) =
     Raised TimeoutException \<and>
   fst (ManagedCefBrowserAdapter_dtor wcf_on (\<lambda>h t. Some TimeoutException)
     (fst (snd (ManagedCefBrowserAdapter_dtor wcf_on (\<lambda>h t. Some TimeoutException) live_adapter)))) =
     Raised TimeoutException \<and>
   calls (snd (snd (ManagedCefBrowserAdapter_dtor wcf_on (\<lambda>h t. Some TimeoutException)
     (fst (snd (ManagedCefBrowserAdapter_dtor wcf_on (\<lambda>h t. Some TimeoutException) live_adapter)))))) =
     [HostClose 4 5] \<and>
   \<not> distinct (List.map_filter released
     (calls (snd (snd (ManagedCefBrowserAdapter_dtor wcf_on (\<lambda>h t. Some TimeoutException) live_adapter)) @
             snd (snd (ManagedCefBrowserAdapter_dtor wcf_on (\<lambda>h t. Some TimeoutException)
               (fst (snd (ManagedCefBrowserAdapter_dtor wcf_on (\<lambda>h t. Some TimeoutException)
                  live_adapter)))))))) \<and>
   fst (snd (ManagedCefBrowserAdapter_dtor wcf_on (\<lambda>h t. None)
     (fst (snd (ManagedCefBrowserAdapter_dtor wcf_on (\<lambda>h t. Some TimeoutException) live_adapter))))) \<noteq>
     fst (snd (ManagedCefBrowserAdapter_dtor wcf_on (\<lambda>h t. Some TimeoutException) live_adapter))"
proof -
  have r: "close_raises wcf_on (\<lambda>h t. Some TimeoutException) live_adapter = Some TimeoutException"
    by (simp add: close_raises_def live_adapter_eq wcf_on_def)
  have r2: "close_raises wcf_on (\<lambda>h t. Some TimeoutException) (step_state wcf_on live_adapter 4) =
      Some TimeoutException"
    by (simp add: close_raises_def step_state_numeral live_adapter_eq wcf_on_def)
  have n2: "close_raises wcf_on (\<lambda>h t. None) (step_state wcf_on live_adapter 4) = None"
    by (simp add: close_raises_def step_state_numeral live_adapter_eq wcf_on_def)
  show ?thesis
    unfolding dtor_raised [OF r] fst_conv snd_conv dtor_raised [OF r2] dtor_returned [OF n2]
    by (simp add: calls_def protocol_defs List.map_filter_def live_adapter_eq wcf_on_def)
qed

text \<open>
  Claim C4, amended. A disposal returns exactly when the service host's \<open>Close\<close> is
  not reached or does not throw. In that case a second disposal under the same settings
  returns whatever \<open>Close\<close> would do, makes no call and leaves the adapter as it is,
  and over both runs each resource is released at most once. When the first disposal is
  cut short by a throwing \<open>Close\<close>, it leaves the adapter as it is after the fourth
  step, and a second disposal calls \<open>Close\<close> on the same host again: it throws if that
  call throws, and otherwise returns after releasing the object repository.
\<close>

theorem disposal_idempotent:
  "(fst (ManagedCefBrowserAdapter_dtor cfg hostClose this) = Returned) =
     (close_raises cfg hostClose this = None) \<and>
   (close_raises cfg hostClose this = None \<longrightarrow>
      ManagedCefBrowserAdapter_dtor cfg hostClose this = (Returned, teardown_protocol cfg this) \<and>
      ManagedCefBrowserAdapter_dtor cfg hostClose' (fst (teardown_protocol cfg this)) =
        (Returned, fst (teardown_protocol cfg this), []) \<and>
      distinct (List.map_filter released
        (calls (snd (teardown_protocol cfg this) @
                snd (snd (ManagedCefBrowserAdapter_dtor cfg hostClose'
                            (fst (teardown_protocol cfg this)))))))) \<and>
   (\<forall>e h. close_raises cfg hostClose this = Some e \<and> browserProcessServiceHost this = Some h \<longrightarrow>
      fst (ManagedCefBrowserAdapter_dtor cfg hostClose this) = Raised e \<and>
      fst (snd (ManagedCefBrowserAdapter_dtor cfg hostClose this)) = step_state cfg this 4 \<and>
      fst (ManagedCefBrowserAdapter_dtor cfg hostClose' (step_state cfg this 4)) =
        (case hostClose' h (WcfTimeout cfg) of None \<Rightarrow> Returned | Some e' \<Rightarrow> Raised e') \<and>
      calls (snd (snd (ManagedCefBrowserAdapter_dtor cfg hostClose' (step_state cfg this 4)))) =
        HostClose h (WcfTimeout cfg) #
        (case hostClose' h (WcfTimeout cfg) of
           None \<Rightarrow> (case javaScriptObjectRepository this of
                      None \<Rightarrow> [] | Some r \<Rightarrow> [DeleteRepository r])
         | Some e' \<Rightarrow> []))"
proof -
  have again: "ManagedCefBrowserAdapter_dtor cfg hostClose' (fst (teardown_protocol cfg this)) =
        (Returned, fst (teardown_protocol cfg this), [])"
    by (simp add: dtor_returned protocol_no_close protocol_twice)
  have first: "ManagedCefBrowserAdapter_dtor cfg hostClose this = (Returned, teardown_protocol cfg this) \<and>
      ManagedCefBrowserAdapter_dtor cfg hostClose' (fst (teardown_protocol cfg this)) =
        (Returned, fst (teardown_protocol cfg this), []) \<and>
      distinct (List.map_filter released
        (calls (snd (teardown_protocol cfg this) @
                snd (snd (ManagedCefBrowserAdapter_dtor cfg hostClose'
                            (fst (teardown_protocol cfg this)))))))"
    if "close_raises cfg hostClose this = None"
    using that protocol_releases [of cfg this] by (simp add: again dtor_returned calls_def)
  have retry: "fst (ManagedCefBrowserAdapter_dtor cfg hostClose this) = Raised e \<and>
      fst (snd (ManagedCefBrowserAdapter_dtor cfg hostClose this)) = step_state cfg this 4 \<and>
      fst (ManagedCefBrowserAdapter_dtor cfg hostClose' (step_state cfg this 4)) =
        (case hostClose' h (WcfTimeout cfg) of None \<Rightarrow> Returned | Some e' \<Rightarrow> Raised e') \<and>
      calls (snd (snd (ManagedCefBrowserAdapter_dtor cfg hostClose' (step_state cfg this 4)))) =
        HostClose h (WcfTimeout cfg) #
        (case hostClose' h (WcfTimeout cfg) of
           None \<Rightarrow> (case javaScriptObjectRepository this of
                      None \<Rightarrow> [] | Some r \<Rightarrow> [DeleteRepository r])
         | Some e' \<Rightarrow> [])"
    if r: "close_raises cfg hostClose this = Some e" and h: "browserProcessServiceHost this = Some h"
    for e h
  proof (cases "hostClose' h (WcfTimeout cfg)")
    case None
    then have "close_raises cfg hostClose' (step_state cfg this 4) = None"
      using raised_state_retry(1) [OF r h, of hostClose'] by simp
    then have "ManagedCefBrowserAdapter_dtor cfg hostClose' (step_state cfg this 4) =
        (Returned, teardown_protocol cfg (step_state cfg this 4))"
      by (rule dtor_returned)
    with None r show ?thesis
      by (simp add: dtor_raised calls_def teardown_protocol_def raised_state_retry [OF r h])
  next
    case (Some e')
    then have "close_raises cfg hostClose' (step_state cfg this 4) = Some e'"
      using raised_state_retry(1) [OF r h, of hostClose'] by simp
    then have "ManagedCefBrowserAdapter_dtor cfg hostClose' (step_state cfg this 4) =
        (Raised e', step_state cfg (step_state cfg this 4) 4,
         queue_step cfg (step_state cfg this 4) @ client_step cfg (step_state cfg this 4) @
         browser_step cfg (step_state cfg this 4) @ host_step cfg (step_state cfg this 4))"
      by (rule dtor_raised)
    with Some r show ?thesis
      by (simp add: dtor_raised calls_def raised_state_retry [OF r h])
  qed
  show ?thesis
    using first retry dtor_returns_iff [of cfg hostClose this] by blast
qed

text \<open>
  The running example disposed twice after a close that returned, and disposed again
  after a close that timed out.
\<close>

theorem disposal_idempotent_witness:
  "ManagedCefBrowserAdapter_dtor wcf_on (\<lambda>h t. Some TimeoutException)
      (fst (teardown_protocol wcf_on live_adapter)) =
     (Returned, fst (teardown_protocol wcf_on live_adapter), []) \<and>
   fst (ManagedCefBrowserAdapter_dtor wcf_on (\<lambda>h t. None) live_adapter) = Returned \<and>
   calls (snd (snd (ManagedCefBrowserAdapter_dtor wcf_on (\<lambda>h t. None)
      (step_state wcf_on live_adapter 4)))) =
     [HostClose 4 5, DeleteRepository JavascriptObjectRepository]"
proof -
  have n: "close_raises wcf_on (\<lambda>h t. None) live_adapter = None"
    by (simp add: close_raises_def live_adapter_eq wcf_on_def)
  have s: "close_raises wcf_on (\<lambda>h t. Some TimeoutException) live_adapter = Some TimeoutException \<and>
      browserProcessServiceHost live_adapter = Some 4"
    by (simp add: close_raises_def live_adapter_eq wcf_on_def)
  from n disposal_idempotent [of wcf_on "\<lambda>h t. None" live_adapter "\<lambda>h t. Some TimeoutException"]
  have a: "ManagedCefBrowserAdapter_dtor wcf_on (\<lambda>h t. Some TimeoutException)
      (fst (teardown_protocol wcf_on live_adapter)) =
     (Returned, fst (teardown_protocol wcf_on live_adapter), [])"
    and b: "fst (ManagedCefBrowserAdapter_dtor wcf_on (\<lambda>h t. None) live_adapter) = Returned"
    by blast+
  from s disposal_idempotent [of wcf_on "\<lambda>h t. Some TimeoutException" live_adapter "\<lambda>h t. None"]
  have "calls (snd (snd (ManagedCefBrowserAdapter_dtor wcf_on (\<lambda>h t. None)
      (step_state wcf_on live_adapter 4)))) =
     HostClose 4 (WcfTimeout wcf_on) #
       (case (None :: exn option) of
           None \<Rightarrow> (case javaScriptObjectRepository live_adapter of
                      None \<Rightarrow> [] | Some r \<Rightarrow> [DeleteRepository r])
         | Some e' \<Rightarrow> [])"
    by blast
  then have c: "calls (snd (snd (ManagedCefBrowserAdapter_dtor wcf_on (\<lambda>h t. None)
      (step_state wcf_on live_adapter 4)))) =
     [HostClose 4 5, DeleteRepository JavascriptObjectRepository]"
    by (simp add: live_adapter_eq wcf_on_def)
  from a b c show ?thesis by blast
qed

text \<open>
  Claim C2, as stated, fails. The running example is disposed with a service host
  whose graceful close times out: the exception leaves the destructor, no \<open>Abort\<close> is
  issued, and the host reference, the back-reference and the object repository are left
  in place.
\<close>

theorem close_timeout_counterexample:
  "fst (ManagedCefBrowserAdapter_dtor wcf_on (\<lambda>h t. Some TimeoutException) live_adapter) =
     Raised TimeoutException \<and>
   calls (snd (snd (ManagedCefBrowserAdapter_dtor wcf_on (\<lambda>h t. Some TimeoutException) live_adapter))) =
     [Unsubscribe (MethodRunnerQueue JavascriptObjectRepository (Some 2)),
      Stop (MethodRunnerQueue JavascriptObjectRepository (Some 2)),
      Release (ClientAdapter (Some 1)),
      CloseBrowser 3 True, DeleteBrowser 3, HostClose 4 5] \<and>
   browserProcessServiceHost
     (fst (snd (ManagedCefBrowserAdapter_dtor wcf_on (\<lambda>h t. Some TimeoutException) live_adapter))) =
     Some 4 \<and>
   webBrowserInternal
     (fst (snd (ManagedCefBrowserAdapter_dtor wcf_on (\<lambda>h t. Some TimeoutException) live_adapter))) =
     Some 1 \<and>
   javaScriptObjectRepository
     (fst (snd (ManagedCefBrowserAdapter_dtor wcf_on (\<lambda>h t. Some TimeoutException) live_adapter))) =
     Some JavascriptObjectRepository"
proof -
  have "close_raises wcf_on (\<lambda>h t. Some TimeoutException) live_adapter = Some TimeoutException"
    by (simp add: close_raises_def live_adapter_eq wcf_on_def)
  then show ?thesis
    by (simp add: dtor_raised calls_def protocol_defs live_adapter_eq wcf_on_def)
qed

text \<open>
  Claim C2, amended. When the graceful close is attempted (out-of-process messaging
  enabled, a service host present, a positive timeout), the adapter never issues
  \<open>Abort\<close> on the host. If \<open>Close\<close> returns, the disposal is the whole teardown
  protocol. If \<open>Close\<close> throws, the exception leaves the destructor after steps one to
  four, with \<open>Close\<close> as the last call, and the host reference, the back-reference and
  the object repository are as they were.
\<close>

theorem close_failure_propagates:
  assumes "WcfEnabled cfg" and "0 < WcfTimeout cfg"
    and "browserProcessServiceHost this = Some h"
  shows "HostAbort h \<notin> set (calls (snd (snd (ManagedCefBrowserAdapter_dtor cfg hostClose this)))) \<and>
         (hostClose h (WcfTimeout cfg) = None \<longrightarrow>
            ManagedCefBrowserAdapter_dtor cfg hostClose this = (Returned, teardown_protocol cfg this)) \<and>
         (\<forall>e. hostClose h (WcfTimeout cfg) = Some e \<longrightarrow>
            ManagedCefBrowserAdapter_dtor cfg hostClose this =
              (Raised e, step_state cfg this 4,
               queue_step cfg this @ client_step cfg this @ browser_step cfg this @
               [(HostClose h (WcfTimeout cfg), step_state cfg this 4)]) \<and>
            browserProcessServiceHost (step_state cfg this 4) = Some h \<and>
            webBrowserInternal (step_state cfg this 4) = webBrowserInternal this \<and>
            javaScriptObjectRepository (step_state cfg this 4) = javaScriptObjectRepository this)"
proof -
  have cr: "close_raises cfg hostClose this = hostClose h (WcfTimeout cfg)"
    using assms by (simp add: close_raises_def)
  have hs: "host_step cfg this = [(HostClose h (WcfTimeout cfg), step_state cfg this 4)]"
    using assms by (simp add: host_step_def)
  have "HostAbort h \<notin> set (filter is_host_call
          (calls (snd (snd (ManagedCefBrowserAdapter_dtor cfg hostClose this)))))"
    by (simp add: dtor_host_calls hs)
  then have "HostAbort h \<notin> set (calls (snd (snd (ManagedCefBrowserAdapter_dtor cfg hostClose this))))"
    by simp
  moreover have "ManagedCefBrowserAdapter_dtor cfg hostClose this = (Returned, teardown_protocol cfg this)"
    if "hostClose h (WcfTimeout cfg) = None"
    using that cr by (simp add: dtor_returned)
  moreover have "ManagedCefBrowserAdapter_dtor cfg hostClose this =
              (Raised e, step_state cfg this 4,
               queue_step cfg this @ client_step cfg this @ browser_step cfg this @
               [(HostClose h (WcfTimeout cfg), step_state cfg this 4)])"
    if "hostClose h (WcfTimeout cfg) = Some e" for e
    using that cr hs by (simp add: dtor_raised)
  moreover have "browserProcessServiceHost (step_state cfg this 4) = Some h \<and>
            webBrowserInternal (step_state cfg this 4) = webBrowserInternal this \<and>
            javaScriptObjectRepository (step_state cfg this 4) = javaScriptObjectRepository this"
    using assms by (simp add: step_state_numeral)
  ultimately show ?thesis by blast
qed

text \<open>The running example with a close that times out.\<close>

theorem close_failure_propagates_witness:
  "ManagedCefBrowserAdapter_dtor wcf_on (\<lambda>h t. Some TimeoutException) live_adapter =
     (Raised TimeoutException, step_state wcf_on live_adapter 4,
      queue_step wcf_on live_adapter @ client_step wcf_on live_adapter @
      browser_step wcf_on live_adapter @ [(HostClose 4 5, step_state wcf_on live_adapter 4)]) \<and>
   HostAbort 4 \<notin> set (calls (snd (snd
     (ManagedCefBrowserAdapter_dtor wcf_on (\<lambda>h t. Some TimeoutException) live_adapter))))"
proof -
  have a: "WcfEnabled wcf_on" "0 < WcfTimeout wcf_on"
    by (simp_all add: wcf_on_def)
  have h: "browserProcessServiceHost live_adapter = Some 4"
    by (simp add: live_adapter_eq)
  show ?thesis
    using close_failure_propagates [OF a h, of "\<lambda>h t. Some TimeoutException"]
    by (auto simp: wcf_on_def)
qed

text \<open>
  Claim C3. A call of \<open>OnAfterBrowserCreated\<close> on a disposed adapter leaves every
  field as it is, so the handle is not retained, and releases the handle at once. In
  particular after any disposal, returned or not: no live browser is recorded before the
  call and none after it.
\<close>

theorem browser_created_after_disposal:
  "(isDisposed this \<longrightarrow>
      OnAfterBrowserCreated b this = (this, [(DeleteBrowser b, this)])) \<and>
   OnAfterBrowserCreated b (fst (snd (ManagedCefBrowserAdapter_dtor cfg hostClose this))) =
     (fst (snd (ManagedCefBrowserAdapter_dtor cfg hostClose this)),
      [(DeleteBrowser b, fst (snd (ManagedCefBrowserAdapter_dtor cfg hostClose this)))]) \<and>
   browserWrapper
     (fst (OnAfterBrowserCreated b (fst (snd (ManagedCefBrowserAdapter_dtor cfg hostClose this))))) =
     None"
  using dtor_disposed [of cfg hostClose this] dtor_browser_cleared [of cfg hostClose this]
  by (simp add: OnAfterBrowserCreated_def)

text \<open>The running example, disposed, then told that browser 9 was created.\<close>

theorem browser_created_after_disposal_witness:
  "isDisposed (live_adapter\<lparr>isDisposed := True\<rparr>) \<and>
   OnAfterBrowserCreated 9 (live_adapter\<lparr>isDisposed := True\<rparr>) =
     (live_adapter\<lparr>isDisposed := True\<rparr>, [(DeleteBrowser 9, live_adapter\<lparr>isDisposed := True\<rparr>)]) \<and>
   browserWrapper (fst (OnAfterBrowserCreated 9
     (fst (snd (ManagedCefBrowserAdapter_dtor wcf_on (\<lambda>h t. None) live_adapter))))) = None"
proof -
  have d: "isDisposed (live_adapter\<lparr>isDisposed := True\<rparr>)"
    by simp
  from d browser_created_after_disposal [of "live_adapter\<lparr>isDisposed := True\<rparr>" 9 wcf_on "\<lambda>h t. None"]
  have r: "OnAfterBrowserCreated 9 (live_adapter\<lparr>isDisposed := True\<rparr>) =
     (live_adapter\<lparr>isDisposed := True\<rparr>, [(DeleteBrowser 9, live_adapter\<lparr>isDisposed := True\<rparr>)])"
    by blast
  from browser_created_after_disposal [of live_adapter 9 wcf_on "\<lambda>h t. None"]
  have n: "browserWrapper (fst (OnAfterBrowserCreated 9
     (fst (snd (ManagedCefBrowserAdapter_dtor wcf_on (\<lambda>h t. None) live_adapter))))) = None"
    by blast
  from d r n show ?thesis by blast
qed

text \<open>
  Claim C7. The finalizer clears the client adapter reference, releasing the native
  handle when there is one, makes no other call, and leaves every other field as it is.
\<close>

theorem finalizer_frame:
  "clientAdapter (fst (ManagedCefBrowserAdapter_finalizer (this, tr))) = None \<and>
   snd (ManagedCefBrowserAdapter_finalizer (this, tr)) =
     tr @ (case clientAdapter this of None \<Rightarrow> [] | Some c \<Rightarrow> [(Release c, this)]) \<and>
   methodRunnerQueue (fst (ManagedCefBrowserAdapter_finalizer (this, tr))) = methodRunnerQueue this \<and>
   browserWrapper (fst (ManagedCefBrowserAdapter_finalizer (this, tr))) = browserWrapper this \<and>
   browserProcessServiceHost (fst (ManagedCefBrowserAdapter_finalizer (this, tr))) =
     browserProcessServiceHost this \<and>
   webBrowserInternal (fst (ManagedCefBrowserAdapter_finalizer (this, tr))) = webBrowserInternal this \<and>
   javaScriptObjectRepository (fst (ManagedCefBrowserAdapter_finalizer (this, tr))) =
     javaScriptObjectRepository this \<and>
   javascriptCallbackFactory (fst (ManagedCefBrowserAdapter_finalizer (this, tr))) =
     javascriptCallbackFactory this \<and>
   isDisposed (fst (ManagedCefBrowserAdapter_finalizer (this, tr))) = isDisposed this \<and>
   fst (ManagedCefBrowserAdapter_finalizer (this, tr)) = this\<lparr>clientAdapter := None\<rparr>"
  by simp

text \<open>
  Claim C8. The constructor creates the off-screen client adapter when
  \<open>offScreenRendering\<close> is true and the windowed one otherwise, creates the object
  repository, the callback factory on the client adapter's pending-task repository and
  the queue on the repository and the given scheduler, keeps the back-reference, has no
  browser and no service host yet, is not disposed, and, with all fields set, subscribes
  to the queue's completion event and then starts the queue.
\<close>

theorem constructor_wiring:
  "clientAdapter (fst (ManagedCefBrowserAdapter_ctor wb osr ts)) =
     Some (if osr then RenderClientAdapter wb else ClientAdapter wb) \<and>
   javaScriptObjectRepository (fst (ManagedCefBrowserAdapter_ctor wb osr ts)) =
     Some JavascriptObjectRepository \<and>
   javascriptCallbackFactory (fst (ManagedCefBrowserAdapter_ctor wb osr ts)) =
     Some (JavascriptCallbackFactory (GetPendingTaskRepository
       (if osr then RenderClientAdapter wb else ClientAdapter wb))) \<and>
   methodRunnerQueue (fst (ManagedCefBrowserAdapter_ctor wb osr ts)) =
     Some (MethodRunnerQueue JavascriptObjectRepository ts) \<and>
   webBrowserInternal (fst (ManagedCefBrowserAdapter_ctor wb osr ts)) = wb \<and>
   browserWrapper (fst (ManagedCefBrowserAdapter_ctor wb osr ts)) = None \<and>
   browserProcessServiceHost (fst (ManagedCefBrowserAdapter_ctor wb osr ts)) = None \<and>
   isDisposed (fst (ManagedCefBrowserAdapter_ctor wb osr ts)) = False \<and>
   snd (ManagedCefBrowserAdapter_ctor wb osr ts) =
     [(Subscribe (MethodRunnerQueue JavascriptObjectRepository ts),
       fst (ManagedCefBrowserAdapter_ctor wb osr ts)),
      (Start (MethodRunnerQueue JavascriptObjectRepository ts),
       fst (ManagedCefBrowserAdapter_ctor wb osr ts))]"
  by (simp add: ManagedCefBrowserAdapter_ctor_def Let_def)

lemma protocol_fields:
  "methodRunnerQueue (fst (teardown_protocol cfg this)) = None"
  "browserWrapper (fst (teardown_protocol cfg this)) = None"
  "webBrowserInternal (fst (teardown_protocol cfg this)) = None"
  "javaScriptObjectRepository (fst (teardown_protocol cfg this)) = None"
  "clientAdapter (fst (teardown_protocol cfg this)) = None"
  "javascriptCallbackFactory (fst (teardown_protocol cfg this)) = javascriptCallbackFactory this"
  "isDisposed (fst (teardown_protocol cfg this))"
  "browserProcessServiceHost (fst (teardown_protocol cfg this)) =
     (if WcfEnabled cfg then None else browserProcessServiceHost this)"
  by (simp_all add: teardown_protocol_def step_state_numeral)

text \<open>
  Claim C10. After a disposal that returned, the queue, browser, back-reference, object
  repository and client adapter references are null, and the service host reference is
  null when out-of-process messaging is enabled. When it is disabled the disposal always
  returns, makes no call on the host and leaves the host reference as it was.
\<close>

theorem references_after_disposal:
  assumes "ManagedCefBrowserAdapter_dtor cfg hostClose this = (oc, this', tr)"
  shows "(oc = Returned \<longrightarrow>
            methodRunnerQueue this' = None \<and> browserWrapper this' = None \<and>
            webBrowserInternal this' = None \<and> javaScriptObjectRepository this' = None \<and>
            clientAdapter this' = None \<and>
            (WcfEnabled cfg \<longrightarrow> browserProcessServiceHost this' = None)) \<and>
         (\<not> WcfEnabled cfg \<longrightarrow>
            oc = Returned \<and>
            browserProcessServiceHost this' = browserProcessServiceHost this \<and>
            filter is_host_call (calls tr) = [])"
proof -
  have ret: "this' = fst (teardown_protocol cfg this)" if "oc = Returned"
  proof -
    from that assms have "fst (ManagedCefBrowserAdapter_dtor cfg hostClose this) = Returned"
      by simp
    then have "close_raises cfg hostClose this = None"
      by (simp add: dtor_returns_iff)
    with assms show ?thesis by (simp add: dtor_returned prod_eq_iff)
  qed
  have off: "oc = Returned \<and> filter is_host_call (calls tr) = []" if "\<not> WcfEnabled cfg"
  proof -
    from that have n: "close_raises cfg hostClose this = None"
      by (simp add: close_raises_def split: option.splits)
    with assms have "oc = Returned" by (simp add: dtor_returned)
    moreover have "filter is_host_call (calls tr) = map fst (host_step cfg this)"
      using dtor_host_calls [of cfg hostClose this] assms by simp
    ultimately show ?thesis using that by (simp add: host_step_def split: option.splits)
  qed
  show ?thesis
    using ret off by (auto simp: protocol_fields)
qed

text \<open>
  The running example disposed with out-of-process messaging disabled: the service host
  reference survives.
\<close>

theorem references_after_disposal_witness:
  "fst (ManagedCefBrowserAdapter_dtor \<lparr>WcfEnabled = False, WcfTimeout = 5\<rparr> (\<lambda>h t. None) live_adapter) =
     Returned \<and>
   browserProcessServiceHost (fst (snd
     (ManagedCefBrowserAdapter_dtor \<lparr>WcfEnabled = False, WcfTimeout = 5\<rparr> (\<lambda>h t. None) live_adapter))) =
     Some 4 \<and>
   browserWrapper (fst (snd
     (ManagedCefBrowserAdapter_dtor \<lparr>WcfEnabled = False, WcfTimeout = 5\<rparr> (\<lambda>h t. None) live_adapter))) =
     None"
  using references_after_disposal [of "\<lparr>WcfEnabled = False, WcfTimeout = 5\<rparr>" "\<lambda>h t. None" live_adapter
      "fst (ManagedCefBrowserAdapter_dtor \<lparr>WcfEnabled = False, WcfTimeout = 5\<rparr> (\<lambda>h t. None) live_adapter)"
      "fst (snd (ManagedCefBrowserAdapter_dtor \<lparr>WcfEnabled = False, WcfTimeout = 5\<rparr> (\<lambda>h t. None) live_adapter))"
      "snd (snd (ManagedCefBrowserAdapter_dtor \<lparr>WcfEnabled = False, WcfTimeout = 5\<rparr> (\<lambda>h t. None) live_adapter))"]
  by (simp add: live_adapter_eq)

lemma exec_disposed: "isDisposed (fst (exec x this)) = (isDisposed this \<or> is_dispose x)"
  by (cases x)
     (simp_all add: dtor_disposed OnAfterBrowserCreated_def CreateBrowser_def Resize_def
        split: option.splits)

lemma exec_all_disposed:
  "isDisposed (exec_all ops this) = (isDisposed this \<or> list_ex is_dispose ops)"
  by (induction ops arbitrary: this) (auto simp: exec_disposed)

lemma dtor_torn_down:
  "torn_down (fst (snd (ManagedCefBrowserAdapter_dtor cfg hostClose this)))"
  by (cases "close_raises cfg hostClose this")
     (simp_all add: dtor_returned dtor_raised teardown_protocol_def step_state_numeral
        torn_down_def)

lemma exec_torn_down:
  assumes "isDisposed this \<longrightarrow> torn_down this"
  shows "isDisposed (fst (exec x this)) \<longrightarrow> torn_down (fst (exec x this))"
proof (cases x)
  case (Dispose cfg hostClose)
  then show ?thesis by (simp add: dtor_torn_down)
next
  case Finalize
  with assms show ?thesis by (simp add: torn_down_def)
next
  case (AfterBrowserCreated b)
  with assms show ?thesis by (simp add: OnAfterBrowserCreated_def)
next
  case (Create w st rc a)
  with assms show ?thesis by (simp add: CreateBrowser_def)
next
  case (ResizeTo w h)
  with assms show ?thesis by (simp add: Resize_def split: option.splits)
qed

lemma exec_all_torn_down:
  "(isDisposed this \<longrightarrow> torn_down this) \<Longrightarrow>
   isDisposed (exec_all ops this) \<longrightarrow> torn_down (exec_all ops this)"
proof (induction ops arbitrary: this)
  case Nil
  then show ?case by simp
next
  case (Cons x xs)
  from Cons.prems have "isDisposed (fst (exec x this)) \<longrightarrow> torn_down (fst (exec x this))"
    by (rule exec_torn_down)
  then show ?case using Cons.IH [of "fst (exec x this)"] by simp
qed

text \<open>
  Claim C5. The disposed flag is false after construction; over any sequence of
  operations on the adapter it is true exactly when the adapter was disposed before or
  the sequence holds a disposal, so it is false until teardown begins and never goes
  back to false; the destructor sets it before all of its calls and leaves it set,
  whether it returns or not; while it is set, \<open>OnAfterBrowserCreated\<close>,
  \<open>CreateBrowser\<close>, \<open>Resize\<close> and \<open>GetBrowser\<close> change no field and reach neither
  the engine nor the live browser; and once a constructed adapter is disposed, it holds
  no client adapter, queue or browser, so that a later finalizer makes no call.
\<close>

theorem disposed_flag_lifecycle:
  "\<not> IsDisposed (fst (ManagedCefBrowserAdapter_ctor wb osr ts)) \<and>
   IsDisposed (exec_all ops (fst (ManagedCefBrowserAdapter_ctor wb osr ts))) = list_ex is_dispose ops \<and>
   IsDisposed (exec_all ops this) = (IsDisposed this \<or> list_ex is_dispose ops) \<and>
   IsDisposed (fst (snd (ManagedCefBrowserAdapter_dtor cfg hostClose this))) \<and>
   list_all (\<lambda>(c, s). IsDisposed s) (snd (snd (ManagedCefBrowserAdapter_dtor cfg hostClose this))) \<and>
   (IsDisposed this \<longrightarrow>
      OnAfterBrowserCreated b this = (this, [(DeleteBrowser b, this)]) \<and>
      CreateBrowser windowInfo browserSettings requestContext address this = (this, []) \<and>
      Resize width height this = (this, []) \<and>
      GetBrowser browserId this = None) \<and>
   (IsDisposed (exec_all ops (fst (ManagedCefBrowserAdapter_ctor wb osr ts))) \<longrightarrow>
      torn_down (exec_all ops (fst (ManagedCefBrowserAdapter_ctor wb osr ts))) \<and>
      snd (ManagedCefBrowserAdapter_finalizer
             (exec_all ops (fst (ManagedCefBrowserAdapter_ctor wb osr ts)), [])) = [])"
proof -
  have new: "\<not> isDisposed (fst (ManagedCefBrowserAdapter_ctor wb osr ts))"
    by (simp add: ManagedCefBrowserAdapter_ctor_def Let_def)
  then have "isDisposed (exec_all ops (fst (ManagedCefBrowserAdapter_ctor wb osr ts))) \<longrightarrow>
      torn_down (exec_all ops (fst (ManagedCefBrowserAdapter_ctor wb osr ts)))"
    by (intro exec_all_torn_down) simp
  then have "isDisposed (exec_all ops (fst (ManagedCefBrowserAdapter_ctor wb osr ts))) \<longrightarrow>
      torn_down (exec_all ops (fst (ManagedCefBrowserAdapter_ctor wb osr ts))) \<and>
      snd (ManagedCefBrowserAdapter_finalizer
             (exec_all ops (fst (ManagedCefBrowserAdapter_ctor wb osr ts)), [])) = []"
    by (simp add: torn_down_def)
  moreover note new
  moreover have "list_all (\<lambda>(c, s). IsDisposed s)
      (snd (snd (ManagedCefBrowserAdapter_dtor cfg hostClose this)))"
    using dtor_calls_disposed [of cfg hostClose this] by (simp add: IsDisposed_def [abs_def])
  ultimately show ?thesis
    by (simp add: IsDisposed_def exec_all_disposed dtor_disposed OnAfterBrowserCreated_def
        CreateBrowser_def Resize_def GetBrowser_def)
qed

text \<open>
  The running example: created, disposed, told of a browser, resized and finalized.
\<close>

theorem disposed_flag_lifecycle_witness:
  "IsDisposed (exec_all [Create 5 6 7 ''about:blank'', Dispose wcf_on (\<lambda>h t. None),
       AfterBrowserCreated 9, ResizeTo 800 600, Finalize] live_adapter) \<and>
   \<not> IsDisposed (exec_all [Create 5 6 7 ''about:blank'', AfterBrowserCreated 9, Finalize]
       live_adapter) \<and>
   Resize 800 600 (live_adapter\<lparr>isDisposed := True\<rparr>) = (live_adapter\<lparr>isDisposed := True\<rparr>, [])"
proof -
  have d: "IsDisposed (live_adapter\<lparr>isDisposed := True\<rparr>)" "\<not> IsDisposed live_adapter"
    by (simp_all add: IsDisposed_def live_adapter_eq)
  from d(1) disposed_flag_lifecycle [of _ _ _ _ "live_adapter\<lparr>isDisposed := True\<rparr>" _ _ _ _ _ _ _ 800 600]
  have r: "Resize 800 600 (live_adapter\<lparr>isDisposed := True\<rparr>) = (live_adapter\<lparr>isDisposed := True\<rparr>, [])"
    by blast
  from disposed_flag_lifecycle [of _ _ _
      "[Create 5 6 7 ''about:blank'', Dispose wcf_on (\<lambda>h t. None), AfterBrowserCreated 9,
        ResizeTo 800 600, Finalize]" live_adapter]
  have a: "IsDisposed (exec_all [Create 5 6 7 ''about:blank'', Dispose wcf_on (\<lambda>h t. None),
       AfterBrowserCreated 9, ResizeTo 800 600, Finalize] live_adapter)"
    by simp
  from d(2) disposed_flag_lifecycle [of _ _ _
      "[Create 5 6 7 ''about:blank'', AfterBrowserCreated 9, Finalize]" live_adapter]
  have b: "\<not> IsDisposed (exec_all [Create 5 6 7 ''about:blank'', AfterBrowserCreated 9, Finalize]
       live_adapter)"
    by simp
  from a b r show ?thesis by blast
qed

lemma drain_append: "drain run rs notified = notified @ map (\<lambda>r. (r, run r)) rs"
  by (induction rs arbitrary: notified) simp_all

lemma stopped_frozen:
  "phase q = Stopped \<Longrightarrow> completions (mrq_run run ops q) = completions q"
proof (induction ops arbitrary: q)
  case Nil
  then show ?case by simp
next
  case (Cons x xs)
  then have "phase (mrq_apply run x q) = Stopped \<and> completions (mrq_apply run x q) = completions q"
    by (cases x) (simp_all add: mrq_enqueue_def mrq_start_def mrq_stop_def)
  with Cons.IH show ?case by simp
qed

lemma completions_prefix:
  "prefix (map fst (completions (mrq_run run ops q)))
     (map fst (completions q) @ queued q @ enqueued ops)"
proof (induction ops arbitrary: q)
  case Nil
  then show ?case by simp
next
  case (Cons x xs)
  show ?case
  proof (cases "phase q")
    case Stopped
    then have frozen: "completions (mrq_run run (x # xs) q) = completions q"
      by (rule stopped_frozen)
    show ?thesis unfolding frozen by simp
  next
    case Created
    show ?thesis
    proof (cases x)
      case (Enqueue r)
      with Created Cons.IH [of "mrq_apply run x q"] show ?thesis
        by (simp add: mrq_enqueue_def)
    next
      case StartQueue
      with Created Cons.IH [of "mrq_apply run x q"] show ?thesis
        by (simp add: mrq_start_def consume_def drain_append comp_def)
    next
      case StopQueue
      then show ?thesis by (simp add: mrq_stop_def stopped_frozen)
    qed
  next
    case Running
    show ?thesis
    proof (cases x)
      case (Enqueue r)
      with Running Cons.IH [of "mrq_apply run x q"] show ?thesis
        by (simp add: mrq_enqueue_def consume_def drain_append comp_def)
    next
      case StartQueue
      with Running Cons.IH [of "mrq_apply run x q"] show ?thesis
        by (simp add: mrq_start_def)
    next
      case StopQueue
      then show ?thesis by (simp add: mrq_stop_def stopped_frozen)
    qed
  qed
qed

lemma mrq_run_append: "mrq_run run (xs @ ys) q = mrq_run run ys (mrq_run run xs q)"
  by (induction xs arbitrary: q) simp_all

lemma enqueue_before_start:
  "phase q = Created \<Longrightarrow>
   mrq_run run (map Enqueue rs) q = q\<lparr>queued := queued q @ rs\<rparr>"
  by (induction rs arbitrary: q) (simp_all add: mrq_enqueue_def)

text \<open>
  Claim C9. Completion notifications come in the order of enqueueing: over any sequence
  of enqueue, start and stop operations on a new queue, the notified requests are an
  initial segment of the enqueued ones; requests enqueued before \<open>start\<close> are all
  notified by \<open>start\<close>, in their order; and for three requests \<open>A\<close>, \<open>B\<close>, \<open>C\<close>
  enqueued before \<open>start\<close> the notifications are those of \<open>A\<close>, \<open>B\<close>, \<open>C\<close> in this
  order.
\<close>

theorem queue_fifo:
  "prefix (map fst (completions (mrq_run run ops mrq_new))) (enqueued ops) \<and>
   completions (mrq_run run (map Enqueue rs @ [StartQueue]) mrq_new) = map (\<lambda>r. (r, run r)) rs \<and>
   completions (mrq_start run (mrq_enqueue run C (mrq_enqueue run B (mrq_enqueue run A mrq_new)))) =
     [(A, run A), (B, run B), (C, run C)]"
proof -
  have "prefix (map fst (completions (mrq_run run ops mrq_new))) (enqueued ops)"
    using completions_prefix [of run ops mrq_new] by (simp add: mrq_new_def)
  moreover have "completions (mrq_run run (map Enqueue rs @ [StartQueue]) mrq_new) =
      map (\<lambda>r. (r, run r)) rs"
    by (simp add: mrq_run_append enqueue_before_start mrq_new_def mrq_start_def consume_def
        drain_append)
  moreover have "completions (mrq_start run (mrq_enqueue run C (mrq_enqueue run B (mrq_enqueue run A mrq_new)))) =
     [(A, run A), (B, run B), (C, run C)]"
    by (simp add: mrq_start_def mrq_enqueue_def mrq_new_def consume_def)
  ultimately show ?thesis by blast
qed

end
